theory Spec2Isabelle
  imports Complex_Main
begin

section \<open>Values of the DNS provider library\<close>

text \<open>
  The ns1-go library declares every field of an answer's metadata as an empty interface
  (\<^verbatim>\<open>interface{}\<close>): the program stores a \<^verbatim>\<open>bool\<close> and a \<^verbatim>\<open>[]string\<close> there, and
  reads back what the JSON decoder produced. \<open>iface\<close> is such a dynamically typed value:
  \<open>INil\<close> the nil interface (field unset), \<open>IStrings\<close> a \<^verbatim>\<open>[]string\<close>, \<open>ISlice\<close> a
  \<^verbatim>\<open>[]interface{}\<close> (a decoded JSON array), \<open>IMap\<close> a decoded JSON object, \<open>IFloat64\<close> a
  decoded JSON number (the program never reads its value). A Go slice is a list here; a
  nil slice and an empty one are both \<open>[]\<close>, which is all \<^verbatim>\<open>len\<close>, \<^verbatim>\<open>range\<close> and
  \<^verbatim>\<open>slices.Equal\<close> can tell.
\<close>

datatype iface =
    INil
  | IBool bool
  | IString string
  | IFloat64 real
  | IStrings "string list"
  | ISlice "iface list"
  | IMap "(string \<times> iface) list"

text \<open>\<^verbatim>\<open>ns1data.Meta\<close>, the two fields the program touches.\<close>

record Meta =
  up :: iface
  country :: iface

text \<open>\<^verbatim>\<open>ns1model.Answer\<close>; \<open>meta\<close> is a pointer, \<open>None\<close> when nil.\<close>

record Answer =
  rdata :: "string list"
  meta :: "Meta option"

text \<open>
  \<^verbatim>\<open>ns1model.Record\<close>: zone, domain, type and the answers, a slice of pointers
  (\<open>None\<close> a nil pointer).
\<close>

record Record =
  zone :: string
  domain :: string
  rtype :: string
  answers :: "Answer option list"

text \<open>
  Go errors. \<open>ErrRecordMissing\<close> is the library's answer to a lookup of a record that
  does not exist, \<open>ErrTransport\<close> any other failure of a provider call, with its text.
  \<open>ErrElementNotString idx item\<close> and \<open>ErrNotASlice\<close> are the two errors of
  \<open>sliceFromInterface\<close>; \<open>ErrWrap msg e\<close> is \<^verbatim>\<open>fmt.Errorf(msg + ": %w", e)\<close>.
\<close>

datatype error =
    ErrRecordMissing
  | ErrTransport string
  | ErrElementNotString nat iface
  | ErrNotASlice
  | ErrWrap string error

text \<open>Run-time panics of the Go program.\<close>

datatype panic =
    IndexOutOfRange nat nat
  | NilDereference

text \<open>
  The library boundary: the three calls of the client's record service the program makes,
  each with the answer the provider gives, and the library's record constructor.
\<close>

record NS1 =
  Records_Get :: "string \<Rightarrow> string \<Rightarrow> string \<Rightarrow> error + Record"
  Records_Create :: "Record \<Rightarrow> error option"
  Records_Update :: "Record \<Rightarrow> error option"
  NewRecord :: "string \<Rightarrow> string \<Rightarrow> string \<Rightarrow> Record"

section \<open>Observable effects\<close>

text \<open>
  One constructor per \<^verbatim>\<open>log.Printf\<close>/\<^verbatim>\<open>log.Println\<close> of the modelled functions, carrying
  the arguments of the format string.
\<close>

datatype logmsg =
    LogNoAnswers string string
  | LogNoRdata string string
  | LogIPMismatch string string string
  | LogIPMatches string string
  | LogUpdated string
  | LogCreated string string
  | LogConversionFailed error
  | LogCountriesDiffer
  | LogUpDiffers
  | LogCreateFailed string error
  | LogWouldCreate string string
  | LogCheckIPFailed string error
  | LogShouldUpdate
  | LogUpdateFailed string error
  | LogWouldUpdate string string

text \<open>What a run does, in order: calls of the provider and log lines.\<close>

datatype event =
    CallGet string string string
  | CallCreate Record
  | CallUpdate Record
  | Log logmsg

section \<open>The reconciliation functions\<close>

text \<open>
  \<^verbatim>\<open>checkIP\<close>: the events, then a panic or the pair the function returns. Reading
  \<^verbatim>\<open>record.Answers[0].Rdata\<close> through a nil first answer panics.
\<close>

definition checkIP :: "string \<Rightarrow> Record \<Rightarrow> event list \<times> (panic + bool \<times> error option)" where
  "checkIP myIP record =
     (if length (answers record) = 0
      then ([Log (LogNoAnswers myIP (domain record))], Inr (False, None))
      else
        (case answers record ! 0 of
           None \<Rightarrow> ([], Inl NilDereference)
         | Some answer0 \<Rightarrow>
             if length (rdata answer0) = 0
             then ([Log (LogNoRdata myIP (domain record))], Inr (False, None))
             else
               (let remoteIP = rdata answer0 ! 0 in
                if myIP \<noteq> remoteIP
                then ([Log (LogIPMismatch myIP (domain record) remoteIP)], Inr (False, None))
                else ([Log (LogIPMatches myIP (domain record))], Inr (True, None)))))"

text \<open>
  \<^verbatim>\<open>updateRecord\<close>: the record's answers are replaced, then the provider is called.
  The log line names the domain of the record as it was sent.
\<close>

definition updateRecord :: "NS1 \<Rightarrow> Record \<Rightarrow> Answer \<Rightarrow> event list \<times> error option" where
  "updateRecord client record answer =
     (let record' = record\<lparr>answers := [Some answer]\<rparr> in
      case Records_Update client record' of
        Some updateErr \<Rightarrow>
          ([CallUpdate record'], Some (ErrWrap ''failed to update record'' updateErr))
      | None \<Rightarrow> ([CallUpdate record', Log (LogUpdated (domain record'))], None))"

text \<open>\<^verbatim>\<open>createRecord\<close>: the country list is stored only when it is not empty.\<close>

definition createRecord ::
    "NS1 \<Rightarrow> string \<Rightarrow> string \<Rightarrow> string \<Rightarrow> string list \<Rightarrow> event list \<times> error option" where
  "createRecord client zone' subdomain newIP allowedCountries =
     (let data = (if length allowedCountries > 0
                  then \<lparr>up = IBool True, country = IStrings allowedCountries\<rparr>
                  else \<lparr>up = IBool True, country = INil\<rparr>);
          answer = \<lparr>rdata = [newIP], meta = Some data\<rparr>;
          record = (NewRecord client zone' subdomain ''A'')\<lparr>answers := [Some answer]\<rparr>
      in case Records_Create client record of
           Some createErr \<Rightarrow>
             ([CallCreate record], Some (ErrWrap ''failed to create record'' createErr))
         | None \<Rightarrow> ([CallCreate record, Log (LogCreated subdomain newIP)], None))"

text \<open>
  The loop of \<^verbatim>\<open>sliceFromInterface\<close>: \<open>result\<close> is allocated with the length of the
  slice and written by index; the first element that is not a string ends the loop with
  an empty slice and an error.
\<close>

fun convertItems :: "nat \<Rightarrow> iface list \<Rightarrow> string list \<Rightarrow> string list \<times> error option" where
  "convertItems idx [] result = (result, None)"
| "convertItems idx (item # rest) result =
     (case item of
        IString str \<Rightarrow> convertItems (Suc idx) rest (result[idx := str])
      | _ \<Rightarrow> ([], Some (ErrElementNotString idx item)))"

definition sliceFromInterface :: "iface \<Rightarrow> string list \<times> error option" where
  "sliceFromInterface i =
     (case i of
        ISlice slice \<Rightarrow> convertItems 0 slice (replicate (length slice) [])
      | _ \<Rightarrow> ([], Some ErrNotASlice))"


text \<open>
  \<^verbatim>\<open>processAnswer\<close>. The three \<^verbatim>\<open>if\<close> statements of the \<^verbatim>\<open>else\<close> branch run one after
  the other, each overwriting \<open>shouldUpdate\<close> and \<open>countriesToUse\<close>; the numbered
  variables are their values after each statement. The answer is a pointer: reading
  \<^verbatim>\<open>answer.Meta\<close> through nil panics.
\<close>

definition processAnswer ::
    "Answer option \<Rightarrow> string list \<Rightarrow> event list \<times> (panic + bool \<times> string list)" where
  "processAnswer answer countries =
     (case answer of
        None \<Rightarrow> ([], Inl NilDereference)
      | Some a \<Rightarrow>
          (case meta a of
             None \<Rightarrow> ([], Inr (True, countries))
           | Some m \<Rightarrow>
               (let (countryMeta, conversionErr) = sliceFromInterface (country m);
                    (log1, shouldUpdate1, countriesToUse1) =
                      (case conversionErr of
                         Some e \<Rightarrow> ([Log (LogConversionFailed e)], True, countries)
                       | None \<Rightarrow> ([], False, []));
                    (log2, shouldUpdate2, countriesToUse2) =
                      (if countryMeta \<noteq> countries
                       then (log1 @ [Log LogCountriesDiffer], True, countries)
                       else (log1, shouldUpdate1, countriesToUse1));
                    (log3, shouldUpdate3, countriesToUse3) =
                      (if up m \<noteq> IBool True
                       then (log2 @ [Log LogUpDiffers], True, countryMeta)
                       else (log2, shouldUpdate2, countriesToUse2))
                in (log3, Inr (shouldUpdate3, countriesToUse3)))))"

text \<open>
  \<^verbatim>\<open>processSubdomain\<close>: the events of the run and the panic that ended it, if any. The
  lookup of the record comes first; \<^verbatim>\<open>record.Answers[0]\<close> is read without a check of
  the length, so it panics on a record with no answers.
\<close>

definition processSubdomain ::
    "string \<Rightarrow> string \<Rightarrow> string \<Rightarrow> NS1 \<Rightarrow> string list \<Rightarrow> bool \<Rightarrow> event list \<times> panic option" where
  "processSubdomain domain' currentIP zone' NS1Client countries test =
     (let get = CallGet zone' domain' ''A'' in
      case Records_Get NS1Client zone' domain' ''A'' of
        Inl recordCheckErr \<Rightarrow>
          if \<not> test then
            (case createRecord NS1Client zone' domain' currentIP countries of
               (evs, Some recordCreateErr) \<Rightarrow>
                 (get # evs @ [Log (LogCreateFailed domain' recordCreateErr)], None)
             | (evs, None) \<Rightarrow> (get # evs, None))
          else ([get, Log (LogWouldCreate domain' currentIP)], None)
      | Inr record \<Rightarrow>
          (case checkIP currentIP record of
             (evs1, Inl p) \<Rightarrow> (get # evs1, Some p)
           | (evs1, Inr (ipMatches, Some ipMatchErr)) \<Rightarrow>
               (get # evs1 @ [Log (LogCheckIPFailed domain' ipMatchErr)], None)
           | (evs1, Inr (ipMatches, None)) \<Rightarrow>
               if length (answers record) = 0
               then (get # evs1, Some (IndexOutOfRange 0 0))
               else
                 (case processAnswer (answers record ! 0) countries of
                    (evs2, Inl p) \<Rightarrow> (get # evs1 @ evs2, Some p)
                  | (evs2, Inr (shouldUpdate, countriesToUse)) \<Rightarrow>
                      (let (updatedAnswer, shouldUpdate') =
                             (if \<not> ipMatches \<or> shouldUpdate
                              then (Some \<lparr>rdata = [currentIP],
                                          meta = Some \<lparr>up = IBool True,
                                                       country = IStrings countriesToUse\<rparr>\<rparr>,
                                    True)
                              else (None, shouldUpdate))
                       in if shouldUpdate' then
                            (if \<not> test then
                               (case updatedAnswer of
                                  None \<Rightarrow>
                                    (get # evs1 @ evs2 @ [Log LogShouldUpdate],
                                     Some NilDereference)
                                | Some ua \<Rightarrow>
                                    (let ua' = (if length (rdata ua) = 0
                                                then ua\<lparr>rdata := [currentIP]\<rparr> else ua)
                                     in case updateRecord NS1Client record ua' of
                                          (evs3, Some updatedRecordErr) \<Rightarrow>
                                            (get # evs1 @ evs2 @ [Log LogShouldUpdate] @ evs3
                                               @ [Log (LogUpdateFailed domain' updatedRecordErr)],
                                             None)
                                        | (evs3, None) \<Rightarrow>
                                            (get # evs1 @ evs2 @ [Log LogShouldUpdate] @ evs3,
                                             None)))
                             else
                               (get # evs1 @ evs2
                                  @ [Log LogShouldUpdate, Log (LogWouldUpdate domain' currentIP)],
                                None))
                          else (get # evs1 @ evs2, None)))))"


section \<open>Reading a run\<close>

text \<open>The calls of a run that change the provider's state.\<close>

fun isMutating :: "event \<Rightarrow> bool" where
  "isMutating (CallCreate r) = True"
| "isMutating (CallUpdate r) = True"
| "isMutating e = False"

definition mutatingCalls :: "event list \<Rightarrow> event list" where
  "mutatingCalls evs = filter isMutating evs"

text \<open>The two log lines of test mode that report an action not taken.\<close>

fun isWould :: "event \<Rightarrow> bool" where
  "isWould (Log (LogWouldCreate d ip)) = True"
| "isWould (Log (LogWouldUpdate d ip)) = True"
| "isWould e = False"

definition wouldReports :: "event list \<Rightarrow> event list" where
  "wouldReports evs = filter isWould evs"

text \<open>
  Whether \<open>processSubdomain\<close> reaches one of its two writing branches: the lookup fails
  (create), or the record is read without a panic and the IP differs or
  \<open>processAnswer\<close> asks for an update.
\<close>

definition writeDue :: "NS1 \<Rightarrow> string \<Rightarrow> string \<Rightarrow> string \<Rightarrow> string list \<Rightarrow> bool" where
  "writeDue client zone' domain' currentIP countries =
     (case Records_Get client zone' domain' ''A'' of
        Inl e \<Rightarrow> True
      | Inr record \<Rightarrow>
          (case answers record of
             [] \<Rightarrow> False
           | answer0 # rest \<Rightarrow>
               (case (snd (checkIP currentIP record), snd (processAnswer answer0 countries)) of
                  (Inr (ipMatches, None), Inr (shouldUpdate, countriesToUse)) \<Rightarrow>
                    \<not> ipMatches \<or> shouldUpdate
                | other \<Rightarrow> False)))"

text \<open>A stretch of a run with no write and no report of a write not made.\<close>

definition quiet :: "event list \<Rightarrow> bool" where
  "quiet evs = (mutatingCalls evs = [] \<and> wouldReports evs = [])"

text \<open>
  A written record is fully populated: it has exactly one answer, whose \<open>rdata\<close> is the
  current IP alone and whose metadata is present with \<open>up = true\<close>.
\<close>

definition fullyPopulated :: "string \<Rightarrow> Record \<Rightarrow> bool" where
  "fullyPopulated currentIP r =
     (case answers r of
        [] \<Rightarrow> False
      | answer0 # rest \<Rightarrow>
          rest = []
          \<and> (case answer0 of
                None \<Rightarrow> False
              | Some a \<Rightarrow>
                  rdata a = [currentIP]
                  \<and> (case meta a of None \<Rightarrow> False | Some m \<Rightarrow> up m = IBool True)))"

text \<open>
  The default of \<^verbatim>\<open>main\<close> for the allowed countries: an empty list of the
  configuration is replaced before any subdomain is reconciled, so \<open>processSubdomain\<close>
  is only ever called with the result of this function.
\<close>

definition allowedCountriesOrDefault :: "string list \<Rightarrow> string list" where
  "allowedCountriesOrDefault allowedCountries =
     (if length allowedCountries = 0 then [''US'', ''CA''] else allowedCountries)"

text \<open>
  What a later lookup returns for a record the program wrote, when the provider keeps the
  answer as written: a non-empty \<^verbatim>\<open>[]string\<close> travels as a JSON array and is decoded
  into a \<^verbatim>\<open>[]interface{}\<close> of strings; a field left unset stays unset, and a
  \<^verbatim>\<open>bool\<close> stays a \<^verbatim>\<open>bool\<close>. The read-back is \<open>None\<close> where this model does not
  determine it: for an empty \<^verbatim>\<open>[]string\<close> (a nil slice is written as \<^verbatim>\<open>null\<close> and an
  empty one as an empty array, and lists do not tell the two apart), and for the values
  the program never writes.
\<close>

definition decoded :: "iface \<Rightarrow> iface option" where
  "decoded v =
     (case v of
        INil \<Rightarrow> Some INil
      | IBool b \<Rightarrow> Some (IBool b)
      | IStrings xs \<Rightarrow> (if xs = [] then None else Some (ISlice (map IString xs)))
      | other \<Rightarrow> None)"

definition decodedMeta :: "Meta \<Rightarrow> Meta option" where
  "decodedMeta m =
     (case (decoded (up m), decoded (country m)) of
        (Some u, Some c) \<Rightarrow> Some \<lparr>up = u, country = c\<rparr>
      | other \<Rightarrow> None)"

definition decodedAnswer :: "Answer option \<Rightarrow> Answer option option" where
  "decodedAnswer answer =
     (case answer of
        None \<Rightarrow> None
      | Some a \<Rightarrow>
          (case meta a of
             None \<Rightarrow> None
           | Some m \<Rightarrow> map_option (\<lambda>m'. Some (a\<lparr>meta := Some m'\<rparr>)) (decodedMeta m)))"

definition fetchedAfterWrite :: "Record \<Rightarrow> Record option" where
  "fetchedAfterWrite r =
     map_option (\<lambda>answers'. r\<lparr>answers := answers'\<rparr>) (those (map decodedAnswer (answers r)))"

text \<open>
  A provider for concrete runs: every lookup returns \<open>lookup\<close>, every write succeeds, and
  a new record holds the zone, domain and type it is given.
\<close>

definition stubClient :: "error + Record \<Rightarrow> NS1" where
  "stubClient lookup =
     \<lparr>Records_Get = (\<lambda>z d t. lookup),
      Records_Create = (\<lambda>r. None),
      Records_Update = (\<lambda>r. None),
      NewRecord = (\<lambda>z d t. \<lparr>zone = z, domain = d, rtype = t, answers = []\<rparr>)\<rparr>"

section \<open>Conversion of the country metadata\<close>

lemma convertItems_strings:
  "idx + length xs \<le> length res \<Longrightarrow>
   convertItems idx (map IString xs) res
     = (take idx res @ xs @ drop (idx + length xs) res, None)"
proof (induction xs arbitrary: idx res)
  case Nil
  then show ?case by simp
next
  case (Cons x xs)
  have "take (Suc idx) (res[idx := x]) = take idx res @ [x]"
    using Cons.prems by (simp add: take_Suc_conv_app_nth)
  then show ?case using Cons by simp
qed

lemma sliceFromInterface_strings:
  "sliceFromInterface (ISlice (map IString xs)) = (xs, None)"
  using convertItems_strings [of 0 xs "replicate (length xs) []"]
  by (simp add: sliceFromInterface_def)

lemma convertItems_error_empty:
  "convertItems idx items res = (out, Some e) \<Longrightarrow> out = []"
  by (induction items arbitrary: idx res) (auto split: iface.splits)

lemma sliceFromInterface_error_empty:
  "sliceFromInterface v = (out, Some e) \<Longrightarrow> out = []"
  by (auto simp: sliceFromInterface_def split: iface.splits dest: convertItems_error_empty)

lemma convertItems_ok_strings:
  "convertItems idx items res = (out, None) \<Longrightarrow> \<exists>xs. items = map IString xs"
proof (induction items arbitrary: idx res)
  case Nil
  then show ?case by simp
next
  case (Cons item items)
  then obtain s where s: "item = IString s"
    by (cases item) auto
  with Cons obtain xs where "items = map IString xs"
    by auto
  with s have "item # items = map IString (s # xs)" by simp
  then show ?case by (rule exI)
qed

lemma sliceFromInterface_ok_iff:
  "sliceFromInterface v = (cs, None) \<longleftrightarrow> v = ISlice (map IString cs)"
proof
  assume ok: "sliceFromInterface v = (cs, None)"
  then obtain items where v: "v = ISlice items"
    by (cases v) (auto simp: sliceFromInterface_def)
  with ok obtain xs where xs: "items = map IString xs"
    by (auto simp: sliceFromInterface_def dest: convertItems_ok_strings)
  with ok v show "v = ISlice (map IString cs)"
    by (simp add: sliceFromInterface_strings)
next
  assume "v = ISlice (map IString cs)"
  then show "sliceFromInterface v = (cs, None)"
    by (simp add: sliceFromInterface_strings)
qed

section \<open>The full domain name\<close>



section \<open>The metadata check\<close>

text \<open>
  C9. For an existing answer with no metadata at all, \<open>processAnswer\<close> asks for an
  update and hands back the desired country list, without logging anything.
\<close>

theorem processAnswer_meta_absent:
  "processAnswer (Some \<lparr>rdata = rd, meta = None\<rparr>) desired = ([], Inr (True, desired))"
  by (simp add: processAnswer_def)

section \<open>Reconciling a subdomain\<close>

lemma checkIP_first_answer:
  "answers r = Some a # rest \<Longrightarrow>
   checkIP ip r =
     (if rdata a = [] then ([Log (LogNoRdata ip (domain r))], Inr (False, None))
      else if ip \<noteq> hd (rdata a)
      then ([Log (LogIPMismatch ip (domain r) (hd (rdata a)))], Inr (False, None))
      else ([Log (LogIPMatches ip (domain r))], Inr (True, None)))"
  by (simp add: checkIP_def hd_conv_nth)

text \<open>
  C1. A record with no answers: \<open>checkIP\<close> reports the mismatch, and the read of the
  first answer that follows panics, in test mode or not; no decision is reached.
\<close>

theorem processSubdomain_no_answers_panics:
  "Records_Get client z d ''A'' = Inr r \<Longrightarrow> answers r = [] \<Longrightarrow>
   processSubdomain d ip z client countries test
     = ([CallGet z d ''A'', Log (LogNoAnswers ip (domain r))], Some (IndexOutOfRange 0 0))"
  by (simp add: processSubdomain_def checkIP_def)

theorem processSubdomain_no_answers_panics_witness:
  "processSubdomain ''home.example.com'' ''203.0.113.5'' ''example.com''
     (stubClient (Inr \<lparr>zone = ''example.com'', domain = ''home.example.com'',
                       rtype = ''A'', answers = []\<rparr>))
     [''US'', ''CA''] False
   = ([CallGet ''example.com'' ''home.example.com'' ''A'',
       Log (LogNoAnswers ''203.0.113.5'' ''home.example.com'')],
      Some (IndexOutOfRange 0 0))"
  using processSubdomain_no_answers_panics [of
      "stubClient (Inr \<lparr>zone = ''example.com'', domain = ''home.example.com'',
                        rtype = ''A'', answers = []\<rparr>)"
      "''example.com''" "''home.example.com''"
      "\<lparr>zone = ''example.com'', domain = ''home.example.com'', rtype = ''A'', answers = []\<rparr>"
      "''203.0.113.5''" "[''US'', ''CA'']" False]
  by (simp add: stubClient_def)

lemma sliceFromInterface_error_iff:
  "(\<exists>e. sliceFromInterface v = ([], Some e)) \<longleftrightarrow> (\<nexists>cs. v = ISlice (map IString cs))"
proof -
  obtain out res where r: "sliceFromInterface v = (out, res)"
    by (cases "sliceFromInterface v")
  show ?thesis
  proof (cases res)
    case None
    with r show ?thesis
      using sliceFromInterface_ok_iff [of v out] by auto
  next
    case (Some e)
    with r have "out = []"
      by (auto dest: sliceFromInterface_error_empty)
    with r Some show ?thesis
      using sliceFromInterface_ok_iff [of v] by auto
  qed
qed

lemma processAnswer_malformed:
  assumes "meta a = Some m" and "sliceFromInterface (country m) = ([], Some e)"
  shows "processAnswer (Some a) desired =
           ([Log (LogConversionFailed e)]
              @ (if desired \<noteq> [] then [Log LogCountriesDiffer] else [])
              @ (if up m \<noteq> IBool True then [Log LogUpDiffers] else []),
            Inr (True, if up m \<noteq> IBool True then [] else desired))"
  using assms by (auto simp: processAnswer_def)

lemma processAnswer_strings:
  assumes "meta a = Some m" and "country m = ISlice (map IString stored)"
  shows "processAnswer (Some a) desired =
           ((if stored \<noteq> desired then [Log LogCountriesDiffer] else [])
              @ (if up m \<noteq> IBool True then [Log LogUpDiffers] else []),
            Inr (stored \<noteq> desired \<or> up m \<noteq> IBool True,
                 if up m \<noteq> IBool True then stored
                 else if stored \<noteq> desired then desired else []))"
  using assms by (auto simp: processAnswer_def sliceFromInterface_strings)

lemma processSubdomain_lookup_error:
  assumes "Records_Get client z d ''A'' = Inl e"
  shows "processSubdomain d ip z client countries test =
           (if test then ([CallGet z d ''A'', Log (LogWouldCreate d ip)], None)
            else (CallGet z d ''A'' # fst (createRecord client z d ip countries)
                    @ (case snd (createRecord client z d ip countries) of
                         Some err \<Rightarrow> [Log (LogCreateFailed d err)]
                       | None \<Rightarrow> []),
                  None))"
proof (cases "createRecord client z d ip countries")
  case (Pair evs res)
  with assms show ?thesis
    by (cases res) (simp_all add: processSubdomain_def Let_def)
qed

lemma createRecord_events:
  "fst (createRecord client z d ip countries) =
     CallCreate ((NewRecord client z d ''A'')
        \<lparr>answers := [Some \<lparr>rdata = [ip],
                           meta = Some \<lparr>up = IBool True,
                                        country = (if countries \<noteq> [] then IStrings countries
                                                   else INil)\<rparr>\<rparr>]\<rparr>)
       # (case snd (createRecord client z d ip countries) of
            None \<Rightarrow> [Log (LogCreated d ip)]
          | Some err \<Rightarrow> [])"
  by (simp add: createRecord_def Let_def split: option.splits)

lemma updateRecord_events:
  "fst (updateRecord client r a) =
     CallUpdate (r\<lparr>answers := [Some a]\<rparr>)
       # (case snd (updateRecord client r a) of
            None \<Rightarrow> [Log (LogUpdated (domain r))]
          | Some err \<Rightarrow> [])"
  by (simp add: updateRecord_def Let_def split: option.splits)

lemma processSubdomain_found:
  assumes "Records_Get client z d ''A'' = Inr r"
      and "answers r = Some a # rest"
      and "checkIP ip r = (evs1, Inr (ipMatches, None))"
      and "processAnswer (Some a) countries = (evs2, Inr (shouldUpdate, countriesToUse))"
  shows "processSubdomain d ip z client countries test =
           (if \<not> ipMatches \<or> shouldUpdate then
              (if test
               then (CallGet z d ''A'' # evs1 @ evs2
                       @ [Log LogShouldUpdate, Log (LogWouldUpdate d ip)], None)
               else (CallGet z d ''A'' # evs1 @ evs2 @ [Log LogShouldUpdate]
                       @ fst (updateRecord client r
                               \<lparr>rdata = [ip],
                                meta = Some \<lparr>up = IBool True,
                                             country = IStrings countriesToUse\<rparr>\<rparr>)
                       @ (case snd (updateRecord client r
                                     \<lparr>rdata = [ip],
                                      meta = Some \<lparr>up = IBool True,
                                                   country = IStrings countriesToUse\<rparr>\<rparr>) of
                            Some err \<Rightarrow> [Log (LogUpdateFailed d err)]
                          | None \<Rightarrow> []),
                     None))
            else (CallGet z d ''A'' # evs1 @ evs2, None))"
proof (cases "updateRecord client r
                \<lparr>rdata = [ip],
                 meta = Some \<lparr>up = IBool True, country = IStrings countriesToUse\<rparr>\<rparr>")
  case (Pair evs3 res)
  with assms show ?thesis
    by (cases res) (simp_all add: processSubdomain_def Let_def)
qed

text \<open>
  C2, as the code has it. For an existing answer with metadata, \<open>up = true\<close> and a list
  of strings as countries, \<open>processAnswer\<close> compares the stored list with the desired
  one by \<^verbatim>\<open>slices.Equal\<close>, element by element in order: it asks for no update exactly
  when the two lists are the same sequence. Then, with a matching IP, the run is the
  lookup and the log line of the match, and nothing else; with lists that differ (be it
  only in order) the run writes one update carrying the desired list.
\<close>

theorem processAnswer_countries_in_order:
  assumes "Records_Get client z d ''A'' = Inr r"
      and "answers r = Some \<lparr>rdata = ip # ips,
                             meta = Some \<lparr>up = IBool True,
                                          country = ISlice (map IString stored)\<rparr>\<rparr> # rest"
  shows "processAnswer (hd (answers r)) desired =
           (if stored = desired then ([], Inr (False, []))
            else ([Log LogCountriesDiffer], Inr (True, desired)))
         \<and> (stored = desired \<longrightarrow>
              processSubdomain d ip z client desired test
                = ([CallGet z d ''A'', Log (LogIPMatches ip (domain r))], None))
         \<and> (stored \<noteq> desired \<longrightarrow>
              mutatingCalls (fst (processSubdomain d ip z client desired False))
                = [CallUpdate (r\<lparr>answers :=
                     [Some \<lparr>rdata = [ip],
                            meta = Some \<lparr>up = IBool True, country = IStrings desired\<rparr>\<rparr>]\<rparr>)])"
proof -
  let ?a = "\<lparr>rdata = ip # ips,
             meta = Some \<lparr>up = IBool True, country = ISlice (map IString stored)\<rparr>\<rparr>"
  have pa: "processAnswer (Some ?a) desired =
              (if stored \<noteq> desired then [Log LogCountriesDiffer] else [],
               Inr (stored \<noteq> desired, if stored \<noteq> desired then desired else []))"
    using processAnswer_strings [of ?a _ stored desired] by simp
  have ci: "checkIP ip r = ([Log (LogIPMatches ip (domain r))], Inr (True, None))"
    using assms(2) by (simp add: checkIP_first_answer)
  have run: "processSubdomain d ip z client desired t =
               (if stored \<noteq> desired then
                  (if t
                   then ([CallGet z d ''A'', Log (LogIPMatches ip (domain r)),
                          Log LogCountriesDiffer, Log LogShouldUpdate,
                          Log (LogWouldUpdate d ip)], None)
                   else (CallGet z d ''A'' # [Log (LogIPMatches ip (domain r)),
                           Log LogCountriesDiffer, Log LogShouldUpdate]
                           @ fst (updateRecord client r
                                   \<lparr>rdata = [ip],
                                    meta = Some \<lparr>up = IBool True,
                                                 country = IStrings desired\<rparr>\<rparr>)
                           @ (case snd (updateRecord client r
                                         \<lparr>rdata = [ip],
                                          meta = Some \<lparr>up = IBool True,
                                                       country = IStrings desired\<rparr>\<rparr>) of
                                Some err \<Rightarrow> [Log (LogUpdateFailed d err)]
                              | None \<Rightarrow> []),
                         None))
                else ([CallGet z d ''A'', Log (LogIPMatches ip (domain r))], None))" for t
    using processSubdomain_found [OF assms(1) assms(2) ci pa, where test = t] by simp
  have first: "processAnswer (hd (answers r)) desired =
                 (if stored = desired then ([], Inr (False, []))
                  else ([Log LogCountriesDiffer], Inr (True, desired)))"
    using pa assms(2) by simp
  have same: "stored = desired \<Longrightarrow>
                processSubdomain d ip z client desired test
                  = ([CallGet z d ''A'', Log (LogIPMatches ip (domain r))], None)"
    using run [of test] by simp
  have differ: "stored \<noteq> desired \<Longrightarrow>
                  mutatingCalls (fst (processSubdomain d ip z client desired False))
                    = [CallUpdate (r\<lparr>answers :=
                         [Some \<lparr>rdata = [ip],
                                meta = Some \<lparr>up = IBool True,
                                             country = IStrings desired\<rparr>\<rparr>]\<rparr>)]"
    using run [of False]
    by (simp add: mutatingCalls_def updateRecord_events split: option.splits)
  from first same differ show ?thesis by blast
qed

theorem processAnswer_countries_in_order_witness:
  "processAnswer
     (Some \<lparr>rdata = [''203.0.113.5''],
            meta = Some \<lparr>up = IBool True,
                         country = ISlice [IString ''US'', IString ''CA'']\<rparr>\<rparr>)
     [''US'', ''CA'']
     = ([], Inr (False, []))
   \<and> processSubdomain ''home.example.com'' ''203.0.113.5'' ''example.com''
       (stubClient (Inr \<lparr>zone = ''example.com'', domain = ''home.example.com'', rtype = ''A'',
          answers = [Some \<lparr>rdata = [''203.0.113.5''],
                           meta = Some \<lparr>up = IBool True,
                                        country = ISlice [IString ''US'', IString ''CA'']\<rparr>\<rparr>]\<rparr>))
       [''US'', ''CA''] False
     = ([CallGet ''example.com'' ''home.example.com'' ''A'',
         Log (LogIPMatches ''203.0.113.5'' ''home.example.com'')], None)"
  using processAnswer_countries_in_order [where
      client = "stubClient (Inr \<lparr>zone = ''example.com'', domain = ''home.example.com'',
          rtype = ''A'',
          answers = [Some \<lparr>rdata = [''203.0.113.5''],
                           meta = Some \<lparr>up = IBool True,
                                        country = ISlice [IString ''US'', IString ''CA'']\<rparr>\<rparr>]\<rparr>)"
      and z = "''example.com''" and d = "''home.example.com''"
      and r = "\<lparr>zone = ''example.com'', domain = ''home.example.com'', rtype = ''A'',
          answers = [Some \<lparr>rdata = [''203.0.113.5''],
                           meta = Some \<lparr>up = IBool True,
                                        country = ISlice [IString ''US'', IString ''CA'']\<rparr>\<rparr>]\<rparr>"
      and ip = "''203.0.113.5''" and ips = "[]" and stored = "[''US'', ''CA'']" and rest = "[]"
      and desired = "[''US'', ''CA'']" and test = False]
  by (simp add: stubClient_def)

text \<open>
  C2 as stated fails: the stored list US, CA and the desired list CA, US are equal as
  sets, the answer is up and the IP matches, yet \<open>processAnswer\<close> asks for an update
  and the run writes one.
\<close>

theorem country_order_counterexample:
  "set [''US'', ''CA''] = set [''CA'', ''US'']
   \<and> processAnswer
       (Some \<lparr>rdata = [''203.0.113.5''],
              meta = Some \<lparr>up = IBool True,
                           country = ISlice [IString ''US'', IString ''CA'']\<rparr>\<rparr>)
       [''CA'', ''US'']
     = ([Log LogCountriesDiffer], Inr (True, [''CA'', ''US'']))
   \<and> processSubdomain ''home.example.com'' ''203.0.113.5'' ''example.com''
       (stubClient (Inr \<lparr>zone = ''example.com'', domain = ''home.example.com'', rtype = ''A'',
          answers = [Some \<lparr>rdata = [''203.0.113.5''],
                           meta = Some \<lparr>up = IBool True,
                                        country = ISlice [IString ''US'', IString ''CA'']\<rparr>\<rparr>]\<rparr>))
       [''CA'', ''US''] False
     = ([CallGet ''example.com'' ''home.example.com'' ''A'',
         Log (LogIPMatches ''203.0.113.5'' ''home.example.com''),
         Log LogCountriesDiffer,
         Log LogShouldUpdate,
         CallUpdate \<lparr>zone = ''example.com'', domain = ''home.example.com'', rtype = ''A'',
           answers = [Some \<lparr>rdata = [''203.0.113.5''],
                            meta = Some \<lparr>up = IBool True,
                                         country = IStrings [''CA'', ''US'']\<rparr>\<rparr>]\<rparr>,
         Log (LogUpdated ''home.example.com'')], None)"
proof -
  have "set [''US'', ''CA''] = set [''CA'', ''US'']"
    by auto
  moreover have "processAnswer
       (Some \<lparr>rdata = [''203.0.113.5''],
              meta = Some \<lparr>up = IBool True,
                           country = ISlice [IString ''US'', IString ''CA'']\<rparr>\<rparr>)
       [''CA'', ''US'']
     = ([Log LogCountriesDiffer], Inr (True, [''CA'', ''US'']))"
    by (simp add: processAnswer_def sliceFromInterface_def)
  ultimately show ?thesis
    by (simp add: processSubdomain_def checkIP_def updateRecord_def stubClient_def)
qed

text \<open>
  C3. Country metadata that is not a \<^verbatim>\<open>[]interface{}\<close> of strings makes
  \<open>sliceFromInterface\<close> fail with an empty slice. \<open>processAnswer\<close> logs the failure
  ("Using default list") and takes the desired list, but when the answer is not up the
  last \<^verbatim>\<open>if\<close> overwrites the list with the empty conversion result: the update asked
  for carries no country at all.
\<close>

theorem processAnswer_malformed_not_up:
  assumes "meta a = Some m"
      and "\<nexists>cs. country m = ISlice (map IString cs)"
      and "up m \<noteq> IBool True"
  shows "\<exists>e. processAnswer (Some a) desired =
           ([Log (LogConversionFailed e)]
              @ (if desired \<noteq> [] then [Log LogCountriesDiffer] else [])
              @ [Log LogUpDiffers],
            Inr (True, []))"
proof -
  from assms(2) obtain e where "sliceFromInterface (country m) = ([], Some e)"
    using sliceFromInterface_error_iff [of "country m"] by blast
  with assms(1) assms(3) have "processAnswer (Some a) desired =
           ([Log (LogConversionFailed e)]
              @ (if desired \<noteq> [] then [Log LogCountriesDiffer] else [])
              @ [Log LogUpDiffers],
            Inr (True, []))"
    by (simp add: processAnswer_malformed)
  then show ?thesis ..
qed

theorem processAnswer_malformed_not_up_witness:
  "processAnswer
     (Some \<lparr>rdata = [''203.0.113.5''],
            meta = Some \<lparr>up = IBool False, country = IString ''US''\<rparr>\<rparr>)
     [''US'', ''CA'']
     = ([Log (LogConversionFailed ErrNotASlice), Log LogCountriesDiffer, Log LogUpDiffers],
        Inr (True, []))
   \<and> mutatingCalls (fst (processSubdomain ''home.example.com'' ''203.0.113.5'' ''example.com''
       (stubClient (Inr \<lparr>zone = ''example.com'', domain = ''home.example.com'', rtype = ''A'',
          answers = [Some \<lparr>rdata = [''203.0.113.5''],
                           meta = Some \<lparr>up = IBool False, country = IString ''US''\<rparr>\<rparr>]\<rparr>))
       [''US'', ''CA''] False))
     = [CallUpdate \<lparr>zone = ''example.com'', domain = ''home.example.com'', rtype = ''A'',
          answers = [Some \<lparr>rdata = [''203.0.113.5''],
                           meta = Some \<lparr>up = IBool True, country = IStrings []\<rparr>\<rparr>]\<rparr>]"
proof -
  have pa: "processAnswer
     (Some \<lparr>rdata = [''203.0.113.5''],
            meta = Some \<lparr>up = IBool False, country = IString ''US''\<rparr>\<rparr>)
     [''US'', ''CA'']
     = ([Log (LogConversionFailed ErrNotASlice), Log LogCountriesDiffer, Log LogUpDiffers],
        Inr (True, []))"
    using processAnswer_malformed_not_up [of
        "\<lparr>rdata = [''203.0.113.5''],
          meta = Some \<lparr>up = IBool False, country = IString ''US''\<rparr>\<rparr>"
        "\<lparr>up = IBool False, country = IString ''US''\<rparr>" "[''US'', ''CA'']"]
    by (simp add: processAnswer_def sliceFromInterface_def)
  then show ?thesis
    by (simp add: processSubdomain_def checkIP_def updateRecord_def stubClient_def
        mutatingCalls_def)
qed

lemma checkIP_first_answer_log:
  assumes "answers r = Some a # rest"
  shows "\<exists>l ipMatches. checkIP ip r = ([Log l], Inr (ipMatches, None))
           \<and> \<not> isWould (Log l)"
  using assms by (auto simp: checkIP_first_answer)

text \<open>
  C4. An existing record whose first answer has metadata with \<open>up\<close> other than
  \<open>true\<close> and a list of strings as countries: \<open>processAnswer\<close> asks for an update
  with the stored countries, and the run writes exactly one update, whose answer carries
  the stored list, whatever the desired list is. In test mode the update is reported and
  not written.
\<close>

theorem processSubdomain_up_restored_keeps_countries:
  assumes "Records_Get client z d ''A'' = Inr r"
      and "answers r = Some a # rest"
      and "meta a = Some m"
      and "up m \<noteq> IBool True"
      and "country m = ISlice (map IString existing)"
  shows "snd (processAnswer (Some a) desired) = Inr (True, existing)
         \<and> mutatingCalls (fst (processSubdomain d ip z client desired False))
             = [CallUpdate (r\<lparr>answers :=
                  [Some \<lparr>rdata = [ip],
                         meta = Some \<lparr>up = IBool True, country = IStrings existing\<rparr>\<rparr>]\<rparr>)]
         \<and> snd (processSubdomain d ip z client desired False) = None
         \<and> wouldReports (fst (processSubdomain d ip z client desired True))
             = [Log (LogWouldUpdate d ip)]
         \<and> mutatingCalls (fst (processSubdomain d ip z client desired True)) = []"
proof -
  obtain l ipMatches where ci: "checkIP ip r = ([Log l], Inr (ipMatches, None))"
      and l: "\<not> isWould (Log l)"
    using checkIP_first_answer_log [OF assms(2)] by blast
  have pa: "processAnswer (Some a) desired =
              ((if existing \<noteq> desired then [Log LogCountriesDiffer] else [])
                 @ [Log LogUpDiffers],
               Inr (True, existing))"
    using processAnswer_strings [OF assms(3) assms(5), of desired] assms(4) by simp
  have run: "processSubdomain d ip z client desired t =
               (if t
                then (CallGet z d ''A'' # [Log l]
                        @ ((if existing \<noteq> desired then [Log LogCountriesDiffer] else [])
                             @ [Log LogUpDiffers])
                        @ [Log LogShouldUpdate, Log (LogWouldUpdate d ip)], None)
                else (CallGet z d ''A'' # [Log l]
                        @ ((if existing \<noteq> desired then [Log LogCountriesDiffer] else [])
                             @ [Log LogUpDiffers])
                        @ [Log LogShouldUpdate]
                        @ fst (updateRecord client r
                                \<lparr>rdata = [ip],
                                 meta = Some \<lparr>up = IBool True,
                                              country = IStrings existing\<rparr>\<rparr>)
                        @ (case snd (updateRecord client r
                                      \<lparr>rdata = [ip],
                                       meta = Some \<lparr>up = IBool True,
                                                    country = IStrings existing\<rparr>\<rparr>) of
                             Some err \<Rightarrow> [Log (LogUpdateFailed d err)]
                           | None \<Rightarrow> []),
                      None))" for t
    using processSubdomain_found [OF assms(1) assms(2) ci pa, where test = t] by simp
  have c1: "snd (processAnswer (Some a) desired) = Inr (True, existing)"
    using pa by simp
  have c2: "mutatingCalls (fst (processSubdomain d ip z client desired False))
             = [CallUpdate (r\<lparr>answers :=
                  [Some \<lparr>rdata = [ip],
                         meta = Some \<lparr>up = IBool True, country = IStrings existing\<rparr>\<rparr>]\<rparr>)]"
    using run [of False]
    by (simp add: mutatingCalls_def updateRecord_events split: option.splits)
  have c3: "snd (processSubdomain d ip z client desired False) = None"
    using run [of False] by simp
  have c4: "wouldReports (fst (processSubdomain d ip z client desired True))
             = [Log (LogWouldUpdate d ip)]"
    using run [of True] l by (simp add: wouldReports_def)
  have c5: "mutatingCalls (fst (processSubdomain d ip z client desired True)) = []"
    using run [of True] by (simp add: mutatingCalls_def)
  from c1 c2 c3 c4 c5 show ?thesis by blast
qed

theorem processSubdomain_up_restored_keeps_countries_witness:
  "snd (processAnswer
     (Some \<lparr>rdata = [''203.0.113.5''],
            meta = Some \<lparr>up = IBool False,
                         country = ISlice [IString ''DE'', IString ''FR'']\<rparr>\<rparr>)
     [''US'', ''CA''])
     = Inr (True, [''DE'', ''FR''])
   \<and> mutatingCalls (fst (processSubdomain ''home.example.com'' ''203.0.113.5'' ''example.com''
       (stubClient (Inr \<lparr>zone = ''example.com'', domain = ''home.example.com'', rtype = ''A'',
          answers = [Some \<lparr>rdata = [''203.0.113.5''],
                           meta = Some \<lparr>up = IBool False,
                                        country = ISlice [IString ''DE'', IString ''FR'']\<rparr>\<rparr>]\<rparr>))
       [''US'', ''CA''] False))
     = [CallUpdate \<lparr>zone = ''example.com'', domain = ''home.example.com'', rtype = ''A'',
          answers = [Some \<lparr>rdata = [''203.0.113.5''],
                           meta = Some \<lparr>up = IBool True,
                                        country = IStrings [''DE'', ''FR'']\<rparr>\<rparr>]\<rparr>]
   \<and> wouldReports (fst (processSubdomain ''home.example.com'' ''203.0.113.5'' ''example.com''
       (stubClient (Inr \<lparr>zone = ''example.com'', domain = ''home.example.com'', rtype = ''A'',
          answers = [Some \<lparr>rdata = [''203.0.113.5''],
                           meta = Some \<lparr>up = IBool False,
                                        country = ISlice [IString ''DE'', IString ''FR'']\<rparr>\<rparr>]\<rparr>))
       [''US'', ''CA''] True))
     = [Log (LogWouldUpdate ''home.example.com'' ''203.0.113.5'')]"
  using processSubdomain_up_restored_keeps_countries [where
      client = "stubClient (Inr \<lparr>zone = ''example.com'', domain = ''home.example.com'',
          rtype = ''A'',
          answers = [Some \<lparr>rdata = [''203.0.113.5''],
                           meta = Some \<lparr>up = IBool False,
                                        country = ISlice [IString ''DE'', IString ''FR'']\<rparr>\<rparr>]\<rparr>)"
      and z = "''example.com''" and d = "''home.example.com''"
      and r = "\<lparr>zone = ''example.com'', domain = ''home.example.com'', rtype = ''A'',
          answers = [Some \<lparr>rdata = [''203.0.113.5''],
                           meta = Some \<lparr>up = IBool False,
                                        country = ISlice [IString ''DE'', IString ''FR'']\<rparr>\<rparr>]\<rparr>"
      and a = "\<lparr>rdata = [''203.0.113.5''],
                 meta = Some \<lparr>up = IBool False,
                              country = ISlice [IString ''DE'', IString ''FR'']\<rparr>\<rparr>"
      and rest = "[]"
      and m = "\<lparr>up = IBool False, country = ISlice [IString ''DE'', IString ''FR'']\<rparr>"
      and existing = "[''DE'', ''FR'']" and desired = "[''US'', ''CA'']"
      and ip = "''203.0.113.5''"]
  by (simp add: stubClient_def)

section \<open>The shape of every run\<close>

lemma quiet_Nil [simp]: "quiet []"
  by (simp add: quiet_def mutatingCalls_def wouldReports_def)

lemma quiet_append [simp]: "quiet (xs @ ys) \<longleftrightarrow> quiet xs \<and> quiet ys"
  by (auto simp: quiet_def mutatingCalls_def wouldReports_def)

lemma quiet_CallGet [simp]: "quiet (CallGet a b c # evs) \<longleftrightarrow> quiet evs"
  by (simp add: quiet_def mutatingCalls_def wouldReports_def)

lemma quiet_Log [simp]: "quiet (Log l # evs) \<longleftrightarrow> \<not> isWould (Log l) \<and> quiet evs"
  by (auto simp: quiet_def mutatingCalls_def wouldReports_def)

lemma quiet_no_call:
  "quiet evs \<Longrightarrow> CallCreate rec \<notin> set evs \<and> CallUpdate rec \<notin> set evs"
  by (auto simp: quiet_def mutatingCalls_def filter_empty_conv)

lemma quiet_no_would:
  "quiet evs \<Longrightarrow> Log (LogWouldCreate d ip) \<notin> set evs \<and> Log (LogWouldUpdate d ip) \<notin> set evs"
  by (auto simp: quiet_def wouldReports_def filter_empty_conv)

lemma processAnswer_some:
  "\<exists>evs shouldUpdate countriesToUse.
     processAnswer (Some a) countries = (evs, Inr (shouldUpdate, countriesToUse)) \<and> quiet evs"
  by (auto simp: processAnswer_def split: option.splits prod.splits)

lemma createRecord_post:
  "\<exists>post. fst (createRecord client z d ip countries)
            = CallCreate ((NewRecord client z d ''A'')
                \<lparr>answers := [Some \<lparr>rdata = [ip],
                    meta = Some \<lparr>up = IBool True,
                                 country = (if countries \<noteq> [] then IStrings countries
                                            else INil)\<rparr>\<rparr>]\<rparr>) # post
          \<and> quiet (post @ (case snd (createRecord client z d ip countries) of
                             Some err \<Rightarrow> [Log (LogCreateFailed d' err)]
                           | None \<Rightarrow> []))"
  by (simp add: createRecord_events split: option.splits)

lemma updateRecord_post:
  "\<exists>post. fst (updateRecord client r a) = CallUpdate (r\<lparr>answers := [Some a]\<rparr>) # post
          \<and> quiet (post @ (case snd (updateRecord client r a) of
                             Some err \<Rightarrow> [Log (LogUpdateFailed d' err)]
                           | None \<Rightarrow> []))"
  by (simp add: updateRecord_events split: option.splits)

lemma processSubdomain_nil_answer:
  "Records_Get client z d ''A'' = Inr r \<Longrightarrow> answers r = None # rest \<Longrightarrow>
   processSubdomain d ip z client countries test = ([CallGet z d ''A''], Some NilDereference)"
  by (simp add: processSubdomain_def checkIP_def)

lemma processSubdomain_no_answers:
  "Records_Get client z d ''A'' = Inr r \<Longrightarrow> answers r = [] \<Longrightarrow>
   processSubdomain d ip z client countries test
     = ([CallGet z d ''A'', Log (LogNoAnswers ip (domain r))], Some (IndexOutOfRange 0 0))"
  by (simp add: processSubdomain_def checkIP_def)

lemma processSubdomain_cases [case_names create update idle]:
  fixes client z d ip countries
  obtains
    e rec post where
      "Records_Get client z d ''A'' = Inl e"
      "writeDue client z d ip countries"
      "processSubdomain d ip z client countries True
         = ([CallGet z d ''A'', Log (LogWouldCreate d ip)], None)"
      "processSubdomain d ip z client countries False
         = (CallGet z d ''A'' # CallCreate rec # post, None)"
      "quiet post" "fullyPopulated ip rec"
  | r pre rec post where
      "Records_Get client z d ''A'' = Inr r"
      "writeDue client z d ip countries"
      "quiet pre"
      "processSubdomain d ip z client countries True
         = (pre @ [Log (LogWouldUpdate d ip)], None)"
      "processSubdomain d ip z client countries False
         = (pre @ CallUpdate rec # post, None)"
      "quiet post" "fullyPopulated ip rec"
  | r pre p where
      "Records_Get client z d ''A'' = Inr r"
      "\<not> writeDue client z d ip countries"
      "quiet pre"
      "\<And>test. processSubdomain d ip z client countries test = (pre, p)"
proof (cases "Records_Get client z d ''A''")
  case (Inl e)
  let ?rec = "(NewRecord client z d ''A'')
                \<lparr>answers := [Some \<lparr>rdata = [ip],
                    meta = Some \<lparr>up = IBool True,
                                 country = (if countries \<noteq> [] then IStrings countries
                                            else INil)\<rparr>\<rparr>]\<rparr>"
  obtain post where post: "fst (createRecord client z d ip countries) = CallCreate ?rec # post"
      and q: "quiet (post @ (case snd (createRecord client z d ip countries) of
                              Some err \<Rightarrow> [Log (LogCreateFailed d err)]
                            | None \<Rightarrow> []))"
    using createRecord_post [of client z d ip countries d] by blast
  have w: "writeDue client z d ip countries"
    using Inl by (simp add: writeDue_def)
  have t: "processSubdomain d ip z client countries True
             = ([CallGet z d ''A'', Log (LogWouldCreate d ip)], None)"
    using processSubdomain_lookup_error [OF Inl, of ip countries True] by simp
  have f: "processSubdomain d ip z client countries False
             = (CallGet z d ''A'' # CallCreate ?rec
                  # (post @ (case snd (createRecord client z d ip countries) of
                               Some err \<Rightarrow> [Log (LogCreateFailed d err)]
                             | None \<Rightarrow> [])), None)"
    using processSubdomain_lookup_error [OF Inl, of ip countries False] post by simp
  have "fullyPopulated ip ?rec"
    by (simp add: fullyPopulated_def)
  with Inl w t f q show ?thesis
    by (rule that(1))
next
  case (Inr r)
  show ?thesis
  proof (cases "answers r")
    case Nil
    have "\<not> writeDue client z d ip countries"
      using Inr Nil by (simp add: writeDue_def)
    moreover have "quiet [CallGet z d ''A'', Log (LogNoAnswers ip (domain r))]"
      by simp
    moreover have "processSubdomain d ip z client countries test
            = ([CallGet z d ''A'', Log (LogNoAnswers ip (domain r))],
               Some (IndexOutOfRange 0 0))" for test
      using processSubdomain_no_answers [OF Inr Nil] .
    ultimately show ?thesis
      using Inr by (rule that(3) [rotated])
  next
    case (Cons answer0 rest)
    show ?thesis
    proof (cases answer0)
      case None
      have "\<not> writeDue client z d ip countries"
        using Inr Cons None by (simp add: writeDue_def checkIP_def)
      moreover have "quiet [CallGet z d ''A'']"
        by simp
      moreover have "processSubdomain d ip z client countries test
              = ([CallGet z d ''A''], Some NilDereference)" for test
        using processSubdomain_nil_answer [OF Inr] Cons None by simp
      ultimately show ?thesis
        using Inr by (rule that(3) [rotated])
    next
      case (Some a)
      with Cons have ans: "answers r = Some a # rest"
        by simp
      obtain l ipMatches where ci: "checkIP ip r = ([Log l], Inr (ipMatches, None))"
          and l: "\<not> isWould (Log l)"
        using checkIP_first_answer_log [OF ans] by blast
      obtain evs2 shouldUpdate countriesToUse
        where pa: "processAnswer (Some a) countries
                     = (evs2, Inr (shouldUpdate, countriesToUse))"
          and q2: "quiet evs2"
        using processAnswer_some by blast
      have wd: "writeDue client z d ip countries \<longleftrightarrow> \<not> ipMatches \<or> shouldUpdate"
        using Inr ans ci pa by (simp add: writeDue_def)
      note run = processSubdomain_found [OF Inr ans ci pa]
      show ?thesis
      proof (cases "\<not> ipMatches \<or> shouldUpdate")
        case False
        have "\<not> writeDue client z d ip countries"
          using wd False by simp
        moreover have "quiet (CallGet z d ''A'' # [Log l] @ evs2)"
          using l q2 by simp
        moreover have "processSubdomain d ip z client countries test
                = (CallGet z d ''A'' # [Log l] @ evs2, None)" for test
          using run [of test] False by simp
        ultimately show ?thesis
          using Inr by (rule that(3) [rotated])
      next
        case True
        let ?ua = "\<lparr>rdata = [ip],
                     meta = Some \<lparr>up = IBool True, country = IStrings countriesToUse\<rparr>\<rparr>"
        let ?pre = "CallGet z d ''A'' # [Log l] @ evs2 @ [Log LogShouldUpdate]"
        obtain post where post: "fst (updateRecord client r ?ua)
                                   = CallUpdate (r\<lparr>answers := [Some ?ua]\<rparr>) # post"
            and q: "quiet (post @ (case snd (updateRecord client r ?ua) of
                                    Some err \<Rightarrow> [Log (LogUpdateFailed d err)]
                                  | None \<Rightarrow> []))"
          using updateRecord_post [of client r ?ua d] by blast
        have w: "writeDue client z d ip countries"
          using wd True by simp
        have qp: "quiet ?pre"
          using l q2 by simp
        have t: "processSubdomain d ip z client countries True
                   = (?pre @ [Log (LogWouldUpdate d ip)], None)"
          using run [of True] True by simp
        have f: "processSubdomain d ip z client countries False
                   = (?pre @ CallUpdate (r\<lparr>answers := [Some ?ua]\<rparr>)
                        # (post @ (case snd (updateRecord client r ?ua) of
                                     Some err \<Rightarrow> [Log (LogUpdateFailed d err)]
                                   | None \<Rightarrow> [])), None)"
          using run [of False] True post by simp
        have "fullyPopulated ip (r\<lparr>answers := [Some ?ua]\<rparr>)"
          by (simp add: fullyPopulated_def)
        with Inr w qp t f q show ?thesis
          by (rule that(2))
      qed
    qed
  qed
qed

section \<open>Create, update and test mode\<close>

text \<open>
  C6, as the code has it. \<open>processSubdomain\<close> tries to create the record exactly when
  the lookup returns an error, whatever the error is: a transport failure is treated as
  a missing record. In test mode the create is reported instead, in exactly the same
  cases.
\<close>

theorem create_iff_lookup_error:
  "((\<exists>rec. CallCreate rec \<in> set (fst (processSubdomain d ip z client countries False)))
      \<longleftrightarrow> (\<exists>e. Records_Get client z d ''A'' = Inl e))
   \<and> (Log (LogWouldCreate d ip) \<in> set (fst (processSubdomain d ip z client countries True))
      \<longleftrightarrow> (\<exists>e. Records_Get client z d ''A'' = Inl e))"
proof (cases rule: processSubdomain_cases [of client z d ip countries])
  case (create e rec post)
  then show ?thesis by auto
next
  case (update r pre rec post)
  then show ?thesis
    using quiet_no_call [of pre] quiet_no_call [of post] quiet_no_would [of pre d ip]
    by auto
next
  case (idle r pre p)
  have "processSubdomain d ip z client countries False = (pre, p)"
    and "processSubdomain d ip z client countries True = (pre, p)"
    using idle(4) by simp_all
  with idle(1) idle(3) show ?thesis
    using quiet_no_call [of pre] quiet_no_would [of pre d ip]
    by auto
qed

theorem create_iff_lookup_error_witness:
  "(\<exists>rec. CallCreate rec \<in> set (fst (processSubdomain ''home.example.com'' ''203.0.113.5''
        ''example.com'' (stubClient (Inl (ErrTransport ''connection timed out'')))
        [''US'', ''CA''] False)))
   \<and> (\<exists>e. Records_Get (stubClient (Inl (ErrTransport ''connection timed out'')))
          ''example.com'' ''home.example.com'' ''A'' = Inl e)
   \<and> Log (LogWouldCreate ''home.example.com'' ''203.0.113.5'')
       \<in> set (fst (processSubdomain ''home.example.com'' ''203.0.113.5''
        ''example.com'' (stubClient (Inl (ErrTransport ''connection timed out'')))
        [''US'', ''CA''] True))"
  using create_iff_lookup_error [of "''home.example.com''" "''203.0.113.5''" "''example.com''"
      "stubClient (Inl (ErrTransport ''connection timed out''))" "[''US'', ''CA'']"]
  by (simp add: stubClient_def)

text \<open>
  C6 as stated fails: when the lookup fails with a transport error, which is not the
  library's not-found error, the run still calls the provider's create.
\<close>

theorem transport_failure_creates_counterexample:
  "ErrTransport ''connection timed out'' \<noteq> ErrRecordMissing
   \<and> processSubdomain ''home.example.com'' ''203.0.113.5'' ''example.com''
       (stubClient (Inl (ErrTransport ''connection timed out''))) [''US'', ''CA''] False
     = ([CallGet ''example.com'' ''home.example.com'' ''A'',
         CallCreate \<lparr>zone = ''example.com'', domain = ''home.example.com'', rtype = ''A'',
           answers = [Some \<lparr>rdata = [''203.0.113.5''],
                            meta = Some \<lparr>up = IBool True,
                                         country = IStrings [''US'', ''CA'']\<rparr>\<rparr>]\<rparr>,
         Log (LogCreated ''home.example.com'' ''203.0.113.5'')], None)"
  by (simp add: processSubdomain_def createRecord_def stubClient_def)

text \<open>
  C7. In test mode a run never calls the provider's create or update. Whenever the run
  reaches a writing branch, the run without test mode makes exactly one such call and
  reports nothing as merely intended, and the run in test mode makes none and reports
  exactly that action as one it would take: a would-create for a create, a would-update
  for an update. When no writing branch is reached, neither run writes or reports.
\<close>

theorem dry_run_law:
  "mutatingCalls (fst (processSubdomain d ip z client countries True)) = []
   \<and> (writeDue client z d ip countries \<longrightarrow>
        wouldReports (fst (processSubdomain d ip z client countries False)) = []
        \<and> ((\<exists>rec. mutatingCalls (fst (processSubdomain d ip z client countries False))
                    = [CallCreate rec]
                  \<and> wouldReports (fst (processSubdomain d ip z client countries True))
                    = [Log (LogWouldCreate d ip)])
           \<or> (\<exists>rec. mutatingCalls (fst (processSubdomain d ip z client countries False))
                    = [CallUpdate rec]
                  \<and> wouldReports (fst (processSubdomain d ip z client countries True))
                    = [Log (LogWouldUpdate d ip)])))
   \<and> (\<not> writeDue client z d ip countries \<longrightarrow>
        mutatingCalls (fst (processSubdomain d ip z client countries False)) = []
        \<and> wouldReports (fst (processSubdomain d ip z client countries True)) = [])"
proof (cases rule: processSubdomain_cases [of client z d ip countries])
  case (create e rec post)
  then show ?thesis
    by (simp add: quiet_def mutatingCalls_def wouldReports_def)
next
  case (update r pre rec post)
  then show ?thesis
    by (simp add: quiet_def mutatingCalls_def wouldReports_def)
next
  case (idle r pre p)
  then show ?thesis
    by (simp add: quiet_def)
qed

theorem dry_run_law_witness:
  "writeDue (stubClient (Inl ErrRecordMissing)) ''example.com'' ''home.example.com''
     ''203.0.113.5'' [''US'', ''CA'']
   \<and> mutatingCalls (fst (processSubdomain ''home.example.com'' ''203.0.113.5'' ''example.com''
       (stubClient (Inl ErrRecordMissing)) [''US'', ''CA''] True)) = []
   \<and> wouldReports (fst (processSubdomain ''home.example.com'' ''203.0.113.5'' ''example.com''
       (stubClient (Inl ErrRecordMissing)) [''US'', ''CA''] True))
     = [Log (LogWouldCreate ''home.example.com'' ''203.0.113.5'')]
   \<and> length (mutatingCalls (fst (processSubdomain ''home.example.com'' ''203.0.113.5''
       ''example.com'' (stubClient (Inl ErrRecordMissing)) [''US'', ''CA''] False))) = 1"
  using dry_run_law [of "''home.example.com''" "''203.0.113.5''" "''example.com''"
      "stubClient (Inl ErrRecordMissing)" "[''US'', ''CA'']"]
  by (simp add: writeDue_def stubClient_def processSubdomain_def createRecord_def
      mutatingCalls_def wouldReports_def)

text \<open>
  C8. Every record a run hands to the provider's create or update is fully populated:
  exactly one answer, with \<open>rdata\<close> the current IP alone and metadata with
  \<open>up = true\<close>. When the lookup fails, the run outside test mode writes exactly one
  create, of such a record; when the record is found and a write is due, whatever made
  it due, the run writes exactly one update, of such a record; and no run, in test mode
  or not, hands any other kind of record to the provider.
\<close>

theorem written_records_fully_populated:
  "(\<forall>e. Records_Get client z d ''A'' = Inl e \<longrightarrow>
        (\<exists>rec. mutatingCalls (fst (processSubdomain d ip z client countries False))
                 = [CallCreate rec]
               \<and> fullyPopulated ip rec))
   \<and> (\<forall>r. Records_Get client z d ''A'' = Inr r \<and> writeDue client z d ip countries \<longrightarrow>
        (\<exists>rec. mutatingCalls (fst (processSubdomain d ip z client countries False))
                 = [CallUpdate rec]
               \<and> fullyPopulated ip rec))
   \<and> (\<forall>rec. CallCreate rec \<in> set (fst (processSubdomain d ip z client countries test))
             \<or> CallUpdate rec \<in> set (fst (processSubdomain d ip z client countries test))
           \<longrightarrow> fullyPopulated ip rec)"
proof (cases rule: processSubdomain_cases [of client z d ip countries])
  case (create e rec' post)
  have one: "mutatingCalls (fst (processSubdomain d ip z client countries False))
               = [CallCreate rec']"
    using create(4) create(5) by (simp add: quiet_def mutatingCalls_def)
  have inv: "fullyPopulated ip rec"
    if "CallCreate rec \<in> set (fst (processSubdomain d ip z client countries test))
        \<or> CallUpdate rec \<in> set (fst (processSubdomain d ip z client countries test))"
    for rec
    using that create quiet_no_call [of post rec] by (cases test) auto
  from one inv create(1) create(6) show ?thesis
    by auto
next
  case (update r pre rec' post)
  have one: "mutatingCalls (fst (processSubdomain d ip z client countries False))
               = [CallUpdate rec']"
    using update(3) update(5) update(6) by (simp add: quiet_def mutatingCalls_def)
  have inv: "fullyPopulated ip rec"
    if "CallCreate rec \<in> set (fst (processSubdomain d ip z client countries test))
        \<or> CallUpdate rec \<in> set (fst (processSubdomain d ip z client countries test))"
    for rec
    using that update quiet_no_call [of post rec] quiet_no_call [of pre rec]
    by (cases test) auto
  from one inv update(1) update(7) show ?thesis
    by auto
next
  case (idle r pre p)
  have run: "processSubdomain d ip z client countries t = (pre, p)" for t
    using idle(4) .
  have inv: "fullyPopulated ip rec"
    if "CallCreate rec \<in> set (fst (processSubdomain d ip z client countries test))
        \<or> CallUpdate rec \<in> set (fst (processSubdomain d ip z client countries test))"
    for rec
    using that run [of test] idle(3) quiet_no_call [of pre rec] by auto
  from inv idle(1) idle(2) show ?thesis
    by auto
qed

theorem written_records_fully_populated_witness:
  "mutatingCalls (fst (processSubdomain ''home.example.com'' ''203.0.113.5'' ''example.com''
       (stubClient (Inl ErrRecordMissing)) [''US'', ''CA''] False))
     = [CallCreate \<lparr>zone = ''example.com'', domain = ''home.example.com'', rtype = ''A'',
          answers = [Some \<lparr>rdata = [''203.0.113.5''],
                           meta = Some \<lparr>up = IBool True,
                                        country = IStrings [''US'', ''CA'']\<rparr>\<rparr>]\<rparr>]
   \<and> mutatingCalls (fst (processSubdomain ''home.example.com'' ''203.0.113.5'' ''example.com''
       (stubClient (Inr \<lparr>zone = ''example.com'', domain = ''home.example.com'',
          rtype = ''A'',
          answers = [Some \<lparr>rdata = [''203.0.113.5'', ''198.51.100.1''], meta = None\<rparr>,
                     Some \<lparr>rdata = [], meta = None\<rparr>]\<rparr>))
       [''US'', ''CA''] False))
     = [CallUpdate \<lparr>zone = ''example.com'', domain = ''home.example.com'', rtype = ''A'',
          answers = [Some \<lparr>rdata = [''203.0.113.5''],
                           meta = Some \<lparr>up = IBool True,
                                        country = IStrings [''US'', ''CA'']\<rparr>\<rparr>]\<rparr>]
   \<and> fullyPopulated ''203.0.113.5''
       \<lparr>zone = ''example.com'', domain = ''home.example.com'', rtype = ''A'',
        answers = [Some \<lparr>rdata = [''203.0.113.5''],
                         meta = Some \<lparr>up = IBool True,
                                      country = IStrings [''US'', ''CA'']\<rparr>\<rparr>]\<rparr>"
proof -
  let ?found = "\<lparr>zone = ''example.com'', domain = ''home.example.com'', rtype = ''A'',
                 answers = [Some \<lparr>rdata = [''203.0.113.5'', ''198.51.100.1''], meta = None\<rparr>,
                            Some \<lparr>rdata = [], meta = None\<rparr>]\<rparr>"
  have get1: "Records_Get (stubClient (Inl ErrRecordMissing)) ''example.com''
                ''home.example.com'' ''A'' = Inl ErrRecordMissing"
    by (simp add: stubClient_def)
  have get2: "Records_Get (stubClient (Inr ?found)) ''example.com''
                ''home.example.com'' ''A'' = Inr ?found"
    by (simp add: stubClient_def)
  have due: "writeDue (stubClient (Inr ?found)) ''example.com'' ''home.example.com''
               ''203.0.113.5'' [''US'', ''CA'']"
    by (simp add: writeDue_def stubClient_def checkIP_def processAnswer_def)
  have run1: "mutatingCalls (fst (processSubdomain ''home.example.com'' ''203.0.113.5''
                ''example.com'' (stubClient (Inl ErrRecordMissing)) [''US'', ''CA''] False))
     = [CallCreate \<lparr>zone = ''example.com'', domain = ''home.example.com'', rtype = ''A'',
          answers = [Some \<lparr>rdata = [''203.0.113.5''],
                           meta = Some \<lparr>up = IBool True,
                                        country = IStrings [''US'', ''CA'']\<rparr>\<rparr>]\<rparr>]"
    by (simp add: processSubdomain_def createRecord_def stubClient_def mutatingCalls_def)
  have run2: "mutatingCalls (fst (processSubdomain ''home.example.com'' ''203.0.113.5''
                ''example.com'' (stubClient (Inr ?found)) [''US'', ''CA''] False))
     = [CallUpdate \<lparr>zone = ''example.com'', domain = ''home.example.com'', rtype = ''A'',
          answers = [Some \<lparr>rdata = [''203.0.113.5''],
                           meta = Some \<lparr>up = IBool True,
                                        country = IStrings [''US'', ''CA'']\<rparr>\<rparr>]\<rparr>]"
    by (simp add: processSubdomain_def checkIP_def processAnswer_def updateRecord_def
        stubClient_def mutatingCalls_def)
  show ?thesis
    using get1 get2 due run1 run2
      written_records_fully_populated [of "stubClient (Inl ErrRecordMissing)"
        "''example.com''" "''home.example.com''" "''203.0.113.5''" "[''US'', ''CA'']" False]
      written_records_fully_populated [of "stubClient (Inr ?found)"
        "''example.com''" "''home.example.com''" "''203.0.113.5''" "[''US'', ''CA'']" False]
    by auto
qed

section \<open>Reconciling again after a create\<close>

text \<open>
  C5. A first run, with the country list as \<^verbatim>\<open>main\<close> passes it (the configured list,
  or the default when that is empty), finds no record and creates one. The provider
  keeps the answer as written, so the record a later lookup returns is determined; and
  a second run that looks it up, with the same IP and the same countries, is the lookup
  and the log line of the matching IP, and nothing else, in test mode or not.
\<close>

theorem create_then_reconcile_idempotent:
  assumes "Records_Get first z d ''A'' = Inl e"
      and "mutatingCalls (fst (processSubdomain d ip z first
              (allowedCountriesOrDefault configured) False)) = [CallCreate w]"
  shows "\<exists>w'. fetchedAfterWrite w = Some w'
           \<and> (\<forall>second test. Records_Get second z d ''A'' = Inr w' \<longrightarrow>
                processSubdomain d ip z second (allowedCountriesOrDefault configured) test
                  = ([CallGet z d ''A'', Log (LogIPMatches ip (domain w))], None))"
proof -
  let ?desired = "allowedCountriesOrDefault configured"
  let ?w = "(NewRecord first z d ''A'')
              \<lparr>answers := [Some \<lparr>rdata = [ip],
                  meta = Some \<lparr>up = IBool True, country = IStrings ?desired\<rparr>\<rparr>]\<rparr>"
  let ?w' = "w\<lparr>answers := [Some \<lparr>rdata = [ip],
                  meta = Some \<lparr>up = IBool True,
                               country = ISlice (map IString ?desired)\<rparr>\<rparr>]\<rparr>"
  have ne: "?desired \<noteq> []"
    by (simp add: allowedCountriesOrDefault_def)
  have "mutatingCalls (fst (processSubdomain d ip z first ?desired False)) = [CallCreate ?w]"
    using processSubdomain_lookup_error [OF assms(1), of ip ?desired False] ne
    by (simp add: createRecord_events mutatingCalls_def split: option.splits)
  with assms(2) have w: "w = ?w"
    by simp
  have fetched: "fetchedAfterWrite w = Some ?w'"
    using ne by (simp add: w fetchedAfterWrite_def decodedAnswer_def decodedMeta_def decoded_def)
  have ans: "answers ?w' = Some \<lparr>rdata = ip # [],
                       meta = Some \<lparr>up = IBool True,
                                    country = ISlice (map IString ?desired)\<rparr>\<rparr> # []"
    by simp
  have dom: "domain ?w' = domain w"
    by simp
  have pa: "processAnswer
              (Some \<lparr>rdata = [ip],
                     meta = Some \<lparr>up = IBool True,
                                  country = ISlice (map IString ?desired)\<rparr>\<rparr>) ?desired
              = ([], Inr (False, []))"
    using processAnswer_strings [of _ "\<lparr>up = IBool True,
        country = ISlice (map IString ?desired)\<rparr>" ?desired ?desired]
    by simp
  have ci: "checkIP ip ?w' = ([Log (LogIPMatches ip (domain w))], Inr (True, None))"
    using ans dom by (simp add: checkIP_first_answer)
  have "processSubdomain d ip z second ?desired test
          = ([CallGet z d ''A'', Log (LogIPMatches ip (domain w))], None)"
    if "Records_Get second z d ''A'' = Inr ?w'" for second test
    using processSubdomain_found [OF that ans ci pa, where test = test] by simp
  with fetched show ?thesis
    by blast
qed

theorem create_then_reconcile_idempotent_witness:
  "allowedCountriesOrDefault [] = [''US'', ''CA'']
   \<and> mutatingCalls (fst (processSubdomain ''home.example.com'' ''203.0.113.5'' ''example.com''
       (stubClient (Inl ErrRecordMissing)) (allowedCountriesOrDefault []) False))
     = [CallCreate \<lparr>zone = ''example.com'', domain = ''home.example.com'', rtype = ''A'',
          answers = [Some \<lparr>rdata = [''203.0.113.5''],
                           meta = Some \<lparr>up = IBool True,
                                        country = IStrings [''US'', ''CA'']\<rparr>\<rparr>]\<rparr>]
   \<and> fetchedAfterWrite
       \<lparr>zone = ''example.com'', domain = ''home.example.com'', rtype = ''A'',
        answers = [Some \<lparr>rdata = [''203.0.113.5''],
                         meta = Some \<lparr>up = IBool True,
                                      country = IStrings [''US'', ''CA'']\<rparr>\<rparr>]\<rparr>
     = Some \<lparr>zone = ''example.com'', domain = ''home.example.com'', rtype = ''A'',
        answers = [Some \<lparr>rdata = [''203.0.113.5''],
                         meta = Some \<lparr>up = IBool True,
                                      country = ISlice [IString ''US'', IString ''CA'']\<rparr>\<rparr>]\<rparr>
   \<and> processSubdomain ''home.example.com'' ''203.0.113.5'' ''example.com''
       (stubClient (Inr
          \<lparr>zone = ''example.com'', domain = ''home.example.com'', rtype = ''A'',
           answers = [Some \<lparr>rdata = [''203.0.113.5''],
                            meta = Some \<lparr>up = IBool True,
                                         country = ISlice [IString ''US'', IString ''CA'']\<rparr>\<rparr>]\<rparr>))
       (allowedCountriesOrDefault []) False
     = ([CallGet ''example.com'' ''home.example.com'' ''A'',
         Log (LogIPMatches ''203.0.113.5'' ''home.example.com'')], None)"
proof -
  let ?w = "\<lparr>zone = ''example.com'', domain = ''home.example.com'', rtype = ''A'',
             answers = [Some \<lparr>rdata = [''203.0.113.5''],
                              meta = Some \<lparr>up = IBool True,
                                           country = IStrings [''US'', ''CA'']\<rparr>\<rparr>]\<rparr>"
  let ?w' = "\<lparr>zone = ''example.com'', domain = ''home.example.com'', rtype = ''A'',
              answers = [Some \<lparr>rdata = [''203.0.113.5''],
                               meta = Some \<lparr>up = IBool True,
                                            country = ISlice [IString ''US'', IString ''CA'']\<rparr>\<rparr>]\<rparr>"
  have dflt: "allowedCountriesOrDefault [] = [''US'', ''CA'']"
    by (simp add: allowedCountriesOrDefault_def)
  have get1: "Records_Get (stubClient (Inl ErrRecordMissing)) ''example.com''
                ''home.example.com'' ''A'' = Inl ErrRecordMissing"
    by (simp add: stubClient_def)
  have run1: "mutatingCalls (fst (processSubdomain ''home.example.com'' ''203.0.113.5''
                ''example.com'' (stubClient (Inl ErrRecordMissing))
                (allowedCountriesOrDefault []) False))
              = [CallCreate ?w]"
    by (simp add: dflt processSubdomain_def createRecord_def stubClient_def mutatingCalls_def)
  have fetched: "fetchedAfterWrite ?w = Some ?w'"
    by (simp add: fetchedAfterWrite_def decodedAnswer_def decodedMeta_def decoded_def)
  have get2: "Records_Get (stubClient (Inr ?w')) ''example.com''
                ''home.example.com'' ''A'' = Inr ?w'"
    by (simp add: stubClient_def)
  have "processSubdomain ''home.example.com'' ''203.0.113.5'' ''example.com''
          (stubClient (Inr ?w')) (allowedCountriesOrDefault []) False
        = ([CallGet ''example.com'' ''home.example.com'' ''A'',
            Log (LogIPMatches ''203.0.113.5'' ''home.example.com'')], None)"
    using create_then_reconcile_idempotent [OF get1 run1] fetched get2
    by auto
  with dflt run1 fetched show ?thesis
    by simp
qed

end
